theory Spec2Isabelle
  imports Main "HOL-Library.Word"
begin

section \<open>Python values and errors\<close>

text \<open>
  The wrapper class \<open>Framebuffer\<close> of \<open>moderngl/framebuffer.py\<close> reshapes arguments
  and forwards them to a native object, \<open>mglo\<close>. The values that cross it are Python
  objects; the fragment below is enough for every argument the methods inspect.
  A float is kept as its 64-bit IEEE pattern: the wrapper never computes with one,
  it only passes floats on and supplies the literals \<open>0.0\<close> and \<open>1.0\<close>.
  \<open>PObj r\<close> is a reference to an object this file does not look into (a texture, a
  renderbuffer, a native buffer), \<open>PBuffer m\<close> an instance of \<open>moderngl.Buffer\<close>
  whose attribute \<open>mglo\<close> is \<open>m\<close>.
\<close>

type_synonym ref = nat

datatype pyval =
    PNone
  | PBool bool
  | PInt int
  | PFloat "64 word"
  | PStr string
  | PBytes "8 word list"
  | PTuple "pyval list"
  | PList "pyval list"
  | PBuffer pyval
  | PObj ref

datatype error = TypeError | AttributeError | DriverError string

definition float_zero :: pyval where
  "float_zero = PFloat 0"

definition float_one :: pyval where
  "float_one = PFloat 0x3FF0000000000000"

text \<open>
  Python's \<open>tuple(x)\<close>: the elements of an iterable, in order; a TypeError for a
  value that is not iterable.
\<close>

fun py_tuple :: "pyval \<Rightarrow> error + pyval list" where
  "py_tuple (PTuple xs) = Inr xs"
| "py_tuple (PList xs) = Inr xs"
| "py_tuple (PStr s) = Inr (map (\<lambda>c. PStr [c]) s)"
| "py_tuple (PBytes bs) = Inr (map (\<lambda>b. PInt (uint b)) bs)"
| "py_tuple PNone = Inl TypeError"
| "py_tuple (PBool b) = Inl TypeError"
| "py_tuple (PInt i) = Inl TypeError"
| "py_tuple (PFloat f) = Inl TypeError"
| "py_tuple (PBuffer m) = Inl TypeError"
| "py_tuple (PObj r) = Inl TypeError"

section \<open>Objects, the driver and the world\<close>

text \<open>
  The slots of a \<open>Framebuffer\<close> instance. \<open>mglo\<close> is \<open>None\<close> or a handle of the
  native framebuffer object, \<open>ctx\<close> is \<open>None\<close> or a reference to the owning context.
  The private slots \<open>_color_attachments\<close>, \<open>_depth_attachment\<close>, \<open>_size\<close>,
  \<open>_samples\<close> and \<open>_glo\<close> carry the prefix \<open>slot\<close>.
\<close>

record framebuffer =
  mglo :: "ref option"
  slot_color_attachments :: pyval
  slot_depth_attachment :: pyval
  slot_size :: "pyval \<times> pyval"
  slot_samples :: pyval
  slot_glo :: pyval
  ctx :: "ref option"
  extra :: pyval

text \<open>Of a context, this file touches the attribute \<open>fbo\<close> only.\<close>

record gl_context =
  fbo :: "ref option"

text \<open>
  Every access to \<open>self.mglo\<close> is one call into the native driver: reading or
  writing one of its attributes, or calling one of its methods with the arguments in
  the order of the source.
\<close>

datatype driver_call =
    GetViewport
  | SetViewport pyval
  | GetScissor
  | SetScissor pyval
  | GetColorMask
  | SetColorMask pyval
  | GetDepthMask
  | SetDepthMask pyval
  | GetBits
  | Clear pyval pyval pyval pyval pyval pyval
  | Use
  | Read pyval pyval pyval pyval pyval
  | ReadInto pyval pyval pyval pyval pyval pyval pyval
  | Release

text \<open>
  The native driver is not part of the Python sources. It is a parameter: a function
  that answers a call on a handle from its own state \<open>'d\<close>, with a value or an error,
  and a new state.
\<close>

type_synonym 'd driver_fn = "ref \<Rightarrow> driver_call \<Rightarrow> 'd \<Rightarrow> (error + pyval) \<times> 'd"

text \<open>
  The world: the store of framebuffer objects, the store of contexts, the state of
  the driver, and the calls made into the driver so far, oldest first.
\<close>

record 'd world =
  framebuffers :: "ref \<Rightarrow> framebuffer"
  contexts :: "ref \<Rightarrow> gl_context"
  driver :: 'd
  calls :: "(ref \<times> driver_call) list"

type_synonym 'd outcome = "(error + pyval) \<times> 'd world"

text \<open>
  \<open>self.mglo.<something>\<close>: an AttributeError when \<open>mglo\<close> is \<open>None\<close>, otherwise the
  driver's answer, with the call recorded.
\<close>

definition call_mglo :: "'d driver_fn \<Rightarrow> ref \<Rightarrow> driver_call \<Rightarrow> 'd world \<Rightarrow> 'd outcome" where
  "call_mglo D self c w =
     (case mglo (framebuffers w self) of
        None \<Rightarrow> (Inl AttributeError, w)
      | Some h \<Rightarrow>
          (case D h c (driver w) of
             (r, d') \<Rightarrow> (r, w\<lparr>driver := d', calls := calls w @ [(h, c)]\<rparr>)))"

text \<open>A method without a \<open>return\<close> statement, and an assignment, yield \<open>None\<close>.\<close>

definition returns_none :: "'d outcome \<Rightarrow> 'd outcome" where
  "returns_none out = (case out of (Inl e, w) \<Rightarrow> (Inl e, w) | (Inr v, w) \<Rightarrow> (Inr PNone, w))"

section \<open>The class Framebuffer\<close>

text \<open>
  \<open>Framebuffer(*args, **kwargs)\<close>: Python allocates the instance \<open>self\<close> and calls
  \<open>__init__(self, *args, **kwargs)\<close>. The method takes no argument besides
  \<open>self\<close>, so with any positional or keyword argument the call itself is a
  TypeError; with none the body fills the slots and raises TypeError.
\<close>

definition Framebuffer_init ::
  "ref \<Rightarrow> pyval list \<Rightarrow> (string \<times> pyval) list \<Rightarrow> 'd world \<Rightarrow> 'd outcome" where
  "Framebuffer_init self args kwargs w =
     (if args \<noteq> [] \<or> kwargs \<noteq> [] then (Inl TypeError, w)
      else (Inl TypeError,
            w\<lparr>framebuffers := (framebuffers w)(self :=
                \<lparr>mglo = None,
                 slot_color_attachments = PNone,
                 slot_depth_attachment = PNone,
                 slot_size = (PNone, PNone),
                 slot_samples = PNone,
                 slot_glo = PNone,
                 ctx = None,
                 extra = PNone\<rparr>)\<rparr>))"

definition viewport :: "'d driver_fn \<Rightarrow> ref \<Rightarrow> 'd world \<Rightarrow> 'd outcome" where
  "viewport D self w = call_mglo D self GetViewport w"

definition viewport_setter :: "'d driver_fn \<Rightarrow> ref \<Rightarrow> pyval \<Rightarrow> 'd world \<Rightarrow> 'd outcome" where
  "viewport_setter D self v w =
     (case py_tuple v of
        Inl e \<Rightarrow> (Inl e, w)
      | Inr t \<Rightarrow> returns_none (call_mglo D self (SetViewport (PTuple t)) w))"

definition scissor :: "'d driver_fn \<Rightarrow> ref \<Rightarrow> 'd world \<Rightarrow> 'd outcome" where
  "scissor D self w = call_mglo D self GetScissor w"

definition scissor_setter :: "'d driver_fn \<Rightarrow> ref \<Rightarrow> pyval \<Rightarrow> 'd world \<Rightarrow> 'd outcome" where
  "scissor_setter D self v w =
     (if v = PNone then returns_none (call_mglo D self (SetScissor PNone) w)
      else (case py_tuple v of
              Inl e \<Rightarrow> (Inl e, w)
            | Inr t \<Rightarrow> returns_none (call_mglo D self (SetScissor (PTuple t)) w)))"

definition color_mask :: "'d driver_fn \<Rightarrow> ref \<Rightarrow> 'd world \<Rightarrow> 'd outcome" where
  "color_mask D self w = call_mglo D self GetColorMask w"

definition color_mask_setter :: "'d driver_fn \<Rightarrow> ref \<Rightarrow> pyval \<Rightarrow> 'd world \<Rightarrow> 'd outcome" where
  "color_mask_setter D self v w = returns_none (call_mglo D self (SetColorMask v) w)"

definition depth_mask :: "'d driver_fn \<Rightarrow> ref \<Rightarrow> 'd world \<Rightarrow> 'd outcome" where
  "depth_mask D self w = call_mglo D self GetDepthMask w"

definition depth_mask_setter :: "'d driver_fn \<Rightarrow> ref \<Rightarrow> pyval \<Rightarrow> 'd world \<Rightarrow> 'd outcome" where
  "depth_mask_setter D self v w = returns_none (call_mglo D self (SetDepthMask v) w)"

text \<open>The read-only accessors read a slot; none of them reaches the driver but \<open>bits\<close>.\<close>

definition width :: "ref \<Rightarrow> 'd world \<Rightarrow> pyval" where
  "width self w = fst (slot_size (framebuffers w self))"

definition height :: "ref \<Rightarrow> 'd world \<Rightarrow> pyval" where
  "height self w = snd (slot_size (framebuffers w self))"

definition size_fb :: "ref \<Rightarrow> 'd world \<Rightarrow> pyval \<times> pyval" where
  "size_fb self w = slot_size (framebuffers w self)"

definition samples :: "ref \<Rightarrow> 'd world \<Rightarrow> pyval" where
  "samples self w = slot_samples (framebuffers w self)"

definition bits :: "'d driver_fn \<Rightarrow> ref \<Rightarrow> 'd world \<Rightarrow> 'd outcome" where
  "bits D self w = call_mglo D self GetBits w"

definition color_attachments :: "ref \<Rightarrow> 'd world \<Rightarrow> pyval" where
  "color_attachments self w = slot_color_attachments (framebuffers w self)"

definition depth_attachment :: "ref \<Rightarrow> 'd world \<Rightarrow> pyval" where
  "depth_attachment self w = slot_depth_attachment (framebuffers w self)"

definition glo :: "ref \<Rightarrow> 'd world \<Rightarrow> pyval" where
  "glo self w = slot_glo (framebuffers w self)"

text \<open>
  \<open>clear(red, green, blue, alpha, depth, *, viewport, color)\<close>. The defaults of the
  signature are \<open>0.0\<close> for the four channels, \<open>1.0\<close> for \<open>depth\<close> and \<open>None\<close> for the
  two keyword arguments; a caller that leaves an argument out passes its default.
  The starred assignment takes the first four elements of
  \<open>tuple(color) + (0.0, 0.0, 0.0, 0.0)\<close>, which has four elements at least.
\<close>

definition clear ::
  "'d driver_fn \<Rightarrow> ref \<Rightarrow> pyval \<Rightarrow> pyval \<Rightarrow> pyval \<Rightarrow> pyval \<Rightarrow> pyval \<Rightarrow> pyval \<Rightarrow> pyval
     \<Rightarrow> 'd world \<Rightarrow> 'd outcome" where
  "clear D self red green blue alpha depth viewport_arg color w =
     (case (if color \<noteq> PNone
            then (case py_tuple color of
                    Inl e \<Rightarrow> Inl e
                  | Inr t \<Rightarrow>
                      (let u = t @ [float_zero, float_zero, float_zero, float_zero]
                       in Inr (u ! 0, u ! 1, u ! 2, u ! 3)))
            else Inr (red, green, blue, alpha)) of
        Inl e \<Rightarrow> (Inl e, w)
      | Inr (r, g, b, a) \<Rightarrow>
          (case (if viewport_arg \<noteq> PNone
                 then (case py_tuple viewport_arg of
                         Inl e \<Rightarrow> Inl e
                       | Inr t \<Rightarrow> Inr (PTuple t))
                 else Inr PNone) of
             Inl e \<Rightarrow> (Inl e, w)
           | Inr vp \<Rightarrow> returns_none (call_mglo D self (Clear r g b a depth vp) w)))"

text \<open>
  \<open>use()\<close>: first \<open>self.ctx.fbo = self\<close> (an AttributeError when \<open>ctx\<close> is
  \<open>None\<close>), then \<open>self.mglo.use()\<close>.
\<close>

definition use :: "'d driver_fn \<Rightarrow> ref \<Rightarrow> 'd world \<Rightarrow> 'd outcome" where
  "use D self w =
     (case ctx (framebuffers w self) of
        None \<Rightarrow> (Inl AttributeError, w)
      | Some c \<Rightarrow>
          returns_none
            (call_mglo D self Use
               (w\<lparr>contexts := (contexts w)(c := (contexts w c)\<lparr>fbo := Some self\<rparr>)\<rparr>)))"

definition read ::
  "'d driver_fn \<Rightarrow> ref \<Rightarrow> pyval \<Rightarrow> pyval \<Rightarrow> pyval \<Rightarrow> pyval \<Rightarrow> pyval \<Rightarrow> 'd world \<Rightarrow> 'd outcome" where
  "read D self viewport_arg components attachment alignment dtype w =
     call_mglo D self (Read viewport_arg components attachment alignment dtype) w"

text \<open>\<open>read_into\<close> replaces a \<open>Buffer\<close> instance by its native object first.\<close>

definition read_into ::
  "'d driver_fn \<Rightarrow> ref \<Rightarrow> pyval \<Rightarrow> pyval \<Rightarrow> pyval \<Rightarrow> pyval \<Rightarrow> pyval \<Rightarrow> pyval \<Rightarrow> pyval
     \<Rightarrow> 'd world \<Rightarrow> 'd outcome" where
  "read_into D self buffer viewport_arg components attachment alignment dtype write_offset w =
     call_mglo D self
       (ReadInto (case buffer of PBuffer m \<Rightarrow> m | _ \<Rightarrow> buffer)
          viewport_arg components attachment alignment dtype write_offset) w"

definition release :: "'d driver_fn \<Rightarrow> ref \<Rightarrow> 'd world \<Rightarrow> 'd outcome" where
  "release D self w = returns_none (call_mglo D self Release w)"

section \<open>Callers and observations\<close>

text \<open>
  A client of the class calls its public operations one after the other. \<open>fb_op\<close>
  names one call with its arguments, \<open>run_op\<close> is the call on a receiver, and
  \<open>run_ops\<close> a sequence of calls on any receivers; the client goes on after a call
  that raised, as one that catches the exception does.
\<close>

datatype fb_op =
    OpGetViewport
  | OpSetViewport pyval
  | OpGetScissor
  | OpSetScissor pyval
  | OpGetColorMask
  | OpSetColorMask pyval
  | OpGetDepthMask
  | OpSetDepthMask pyval
  | OpBits
  | OpClear pyval pyval pyval pyval pyval pyval pyval
  | OpUse
  | OpRead pyval pyval pyval pyval pyval
  | OpReadInto pyval pyval pyval pyval pyval pyval pyval
  | OpRelease

fun run_op :: "'d driver_fn \<Rightarrow> ref \<Rightarrow> fb_op \<Rightarrow> 'd world \<Rightarrow> 'd outcome" where
  "run_op D self OpGetViewport w = viewport D self w"
| "run_op D self (OpSetViewport v) w = viewport_setter D self v w"
| "run_op D self OpGetScissor w = scissor D self w"
| "run_op D self (OpSetScissor v) w = scissor_setter D self v w"
| "run_op D self OpGetColorMask w = color_mask D self w"
| "run_op D self (OpSetColorMask v) w = color_mask_setter D self v w"
| "run_op D self OpGetDepthMask w = depth_mask D self w"
| "run_op D self (OpSetDepthMask v) w = depth_mask_setter D self v w"
| "run_op D self OpBits w = bits D self w"
| "run_op D self (OpClear r g b a dep vp col) w = clear D self r g b a dep vp col w"
| "run_op D self OpUse w = use D self w"
| "run_op D self (OpRead vp n att al dt) w = read D self vp n att al dt w"
| "run_op D self (OpReadInto buf vp n att al dt off) w =
     read_into D self buf vp n att al dt off w"
| "run_op D self OpRelease w = release D self w"

fun run_ops :: "'d driver_fn \<Rightarrow> (ref \<times> fb_op) list \<Rightarrow> 'd world \<Rightarrow> 'd world" where
  "run_ops D [] w = w"
| "run_ops D ((self, op) # ops) w = run_ops D ops (snd (run_op D self op w))"

text \<open>
  What a caller can observe of a call: its result, the Python objects and the state
  of the driver. The record of calls is bookkeeping of this theory and is left out.
\<close>

definition observable ::
  "'d outcome \<Rightarrow> (error + pyval) \<times> (ref \<Rightarrow> framebuffer) \<times> (ref \<Rightarrow> gl_context) \<times> 'd" where
  "observable out = (fst out, framebuffers (snd out), contexts (snd out), driver (snd out))"

text \<open>
  The channel values the claims speak of: the first four elements of a sequence,
  padded on the right with \<open>0.0\<close>.
\<close>

definition first_four_padded :: "pyval list \<Rightarrow> pyval list" where
  "first_four_padded xs = take 4 xs @ replicate (4 - length xs) float_zero"

section \<open>The native framebuffer object\<close>

text \<open>
  Modelled from the spec: the native object behind \<open>mglo\<close>, whose code is not among
  the Python sources. It holds the size fixed at creation, the viewport and scissor
  rectangles \<open>(x, y, width, height)\<close>, the two write masks, the bit depths, and the
  colour and depth planes that a clear writes; all attachments receive the same
  clear, so one colour plane stands for them.
\<close>

type_synonym box = "int \<times> int \<times> int \<times> int"

type_synonym pixel = "pyval \<times> pyval \<times> pyval \<times> pyval"

record mglo_framebuffer =
  d_width :: int
  d_height :: int
  d_viewport :: box
  d_scissor :: box
  d_color_mask :: pyval
  d_depth_mask :: pyval
  d_bits :: pyval
  d_color :: "int \<times> int \<Rightarrow> pixel"
  d_depth :: "int \<times> int \<Rightarrow> pyval"

type_synonym spec_state = "ref \<Rightarrow> mglo_framebuffer"

fun the_int :: "pyval \<Rightarrow> int option" where
  "the_int (PInt i) = Some i"
| "the_int PNone = None"
| "the_int (PBool b) = None"
| "the_int (PFloat f) = None"
| "the_int (PStr s) = None"
| "the_int (PBytes bs) = None"
| "the_int (PTuple xs) = None"
| "the_int (PList xs) = None"
| "the_int (PBuffer m) = None"
| "the_int (PObj r) = None"

fun the_ints :: "pyval list \<Rightarrow> int list option" where
  "the_ints [] = Some []"
| "the_ints (x # xs) =
     (case the_int x of
        None \<Rightarrow> None
      | Some i \<Rightarrow> (case the_ints xs of None \<Rightarrow> None | Some js \<Rightarrow> Some (i # js)))"

text \<open>
  Modelled from the spec: the rectangle a setter accepts is a tuple of four
  integers, "a 4-element sequence, coerced to a tuple"; anything else is refused by
  the driver.
\<close>

definition four_tuple :: "pyval \<Rightarrow> box option" where
  "four_tuple v =
     (case v of
        PTuple xs \<Rightarrow>
          (case the_ints xs of
             Some [x, y, w, h] \<Rightarrow> Some (x, y, w, h)
           | _ \<Rightarrow> None)
      | _ \<Rightarrow> None)"

definition box_tuple :: "box \<Rightarrow> pyval" where
  "box_tuple b = (case b of (x, y, w, h) \<Rightarrow> PTuple [PInt x, PInt y, PInt w, PInt h])"

definition full_box :: "mglo_framebuffer \<Rightarrow> box" where
  "full_box m = (0, 0, d_width m, d_height m)"

text \<open>
  Modelled from the spec: the viewport of a clear. "If viewport is a 2-tuple (w, h)
  it is normalized to (0, 0, w, h); if a 4-tuple, used verbatim; if None, the
  framebuffer's persistent scissor setting governs." A disabled scissor test is the
  full-size box, so the scissor rectangle is the region in the last case.
\<close>

definition resolve_viewport :: "mglo_framebuffer \<Rightarrow> pyval \<Rightarrow> box option" where
  "resolve_viewport m v =
     (case v of
        PNone \<Rightarrow> Some (d_scissor m)
      | PTuple xs \<Rightarrow>
          (case the_ints xs of
             Some [w, h] \<Rightarrow> Some (0, 0, w, h)
           | Some [x, y, w, h] \<Rightarrow> Some (x, y, w, h)
           | _ \<Rightarrow> None)
      | _ \<Rightarrow> None)"

text \<open>
  Modelled from the spec: a clear "against color and depth planes of all
  attachments, scoped to the resolved viewport". A pixel is cleared when it lies in
  the framebuffer and in the rectangle.
\<close>

definition in_box :: "mglo_framebuffer \<Rightarrow> box \<Rightarrow> int \<times> int \<Rightarrow> bool" where
  "in_box m b p =
     (case b of (x, y, w, h) \<Rightarrow>
        (case p of (px, py) \<Rightarrow>
           0 \<le> px \<and> px < d_width m \<and> 0 \<le> py \<and> py < d_height m
           \<and> x \<le> px \<and> px < x + w \<and> y \<le> py \<and> py < y + h))"

definition paint :: "mglo_framebuffer \<Rightarrow> box \<Rightarrow> pixel \<Rightarrow> pyval \<Rightarrow> mglo_framebuffer" where
  "paint m b c dep =
     m\<lparr>d_color := (\<lambda>p. if in_box m b p then c else d_color m p),
       d_depth := (\<lambda>p. if in_box m b p then dep else d_depth m p)\<rparr>"

text \<open>
  Modelled from the spec: the driver's answers to the attribute accesses and to
  \<open>clear\<close> (section 4.1 of the specification). The viewport getter "returns current
  4-tuple", the setters store a rectangle of four integers, \<open>scissor = None\<close> is
  "equivalent to full-size box", the masks are stored as given ("no validation").
  The calls \<open>use\<close>, \<open>read\<close>, \<open>read_into\<close> and \<open>release\<close> are left to the parameter
  \<open>other\<close>.
\<close>

definition spec_driver :: "spec_state driver_fn \<Rightarrow> spec_state driver_fn" where
  "spec_driver other h c d =
     (case c of
        GetViewport \<Rightarrow> (Inr (box_tuple (d_viewport (d h))), d)
      | SetViewport v \<Rightarrow>
          (case four_tuple v of
             None \<Rightarrow> (Inl (DriverError ''viewport''), d)
           | Some b \<Rightarrow> (Inr PNone, d(h := (d h)\<lparr>d_viewport := b\<rparr>)))
      | GetScissor \<Rightarrow> (Inr (box_tuple (d_scissor (d h))), d)
      | SetScissor v \<Rightarrow>
          (if v = PNone then (Inr PNone, d(h := (d h)\<lparr>d_scissor := full_box (d h)\<rparr>))
           else (case four_tuple v of
                   None \<Rightarrow> (Inl (DriverError ''scissor''), d)
                 | Some b \<Rightarrow> (Inr PNone, d(h := (d h)\<lparr>d_scissor := b\<rparr>))))
      | GetColorMask \<Rightarrow> (Inr (d_color_mask (d h)), d)
      | SetColorMask v \<Rightarrow> (Inr PNone, d(h := (d h)\<lparr>d_color_mask := v\<rparr>))
      | GetDepthMask \<Rightarrow> (Inr (d_depth_mask (d h)), d)
      | SetDepthMask v \<Rightarrow> (Inr PNone, d(h := (d h)\<lparr>d_depth_mask := v\<rparr>))
      | GetBits \<Rightarrow> (Inr (d_bits (d h)), d)
      | Clear r g b a dep vp \<Rightarrow>
          (case resolve_viewport (d h) vp of
             None \<Rightarrow> (Inl (DriverError ''viewport''), d)
           | Some bx \<Rightarrow> (Inr PNone, d(h := paint (d h) bx (r, g, b, a) dep)))
      | _ \<Rightarrow> other h c d)"

section \<open>A concrete world\<close>

text \<open>
  Two framebuffers of one context, of 4 by 3 pixels: the object at address 11 with
  the native handle 8, and the object at every other address with the handle 7.
  \<open>refuse\<close> and \<open>accept\<close> are two drivers that answer every call alike.
\<close>

definition example_fb :: "ref \<Rightarrow> ref \<Rightarrow> framebuffer" where
  "example_fb h c =
     \<lparr>mglo = Some h,
      slot_color_attachments = PTuple [PObj 40],
      slot_depth_attachment = PNone,
      slot_size = (PInt 4, PInt 3),
      slot_samples = PInt 0,
      slot_glo = PInt 1,
      ctx = Some c,
      extra = PNone\<rparr>"

definition example_mglo :: mglo_framebuffer where
  "example_mglo =
     \<lparr>d_width = 4,
      d_height = 3,
      d_viewport = (0, 0, 4, 3),
      d_scissor = (1, 1, 2, 2),
      d_color_mask = PTuple [PBool True, PBool True, PBool True, PBool True],
      d_depth_mask = PBool True,
      d_bits = PNone,
      d_color = (\<lambda>p. (float_one, float_one, float_one, float_one)),
      d_depth = (\<lambda>p. float_zero)\<rparr>"

definition refuse :: "spec_state driver_fn" where
  "refuse h c d = (Inl (DriverError ''unsupported''), d)"

definition accept :: "spec_state driver_fn" where
  "accept h c d = (Inr PNone, d)"

definition example_world :: "spec_state world" where
  "example_world =
     \<lparr>framebuffers = (\<lambda>r. if r = 11 then example_fb 8 1 else example_fb 7 1),
      contexts = (\<lambda>c. \<lparr>fbo = None\<rparr>),
      driver = (\<lambda>h. example_mglo),
      calls = []\<rparr>"

section \<open>Basic facts\<close>

lemma returns_none_simps [simp]:
  "returns_none (Inl e, w) = (Inl e, w)"
  "returns_none (Inr v, w) = (Inr PNone, w)"
  by (simp_all add: returns_none_def)

lemma returns_none_snd: "snd (returns_none out) = snd out"
  by (cases out) (auto simp: returns_none_def split: sum.splits)

lemma calls_returns_none: "calls (snd (returns_none out)) = calls (snd out)"
  by (simp add: returns_none_snd)

lemma fst_returns_none:
  "fst (returns_none out) = (case fst out of Inl e \<Rightarrow> Inl e | Inr v \<Rightarrow> Inr PNone)"
  by (cases out) (auto simp: returns_none_def split: sum.splits)

lemma call_mglo_some:
  "mglo (framebuffers w self) = Some h \<Longrightarrow>
   calls (snd (call_mglo D self c w)) = calls w @ [(h, c)]
   \<and> fst (call_mglo D self c w) = fst (D h c (driver w))"
  by (simp add: call_mglo_def split: prod.splits)

lemma call_mglo_frame:
  "framebuffers (snd (call_mglo D self c w)) = framebuffers w
   \<and> contexts (snd (call_mglo D self c w)) = contexts w"
  by (simp add: call_mglo_def split: option.splits prod.splits)

lemma py_tuple_not_none: "py_tuple v = Inr xs \<Longrightarrow> v \<noteq> PNone"
  by auto

lemma four_tuple_ints [simp]:
  "four_tuple (PTuple [PInt x, PInt y, PInt w, PInt h]) = Some (x, y, w, h)"
  by (simp add: four_tuple_def)

section \<open>Direct construction\<close>

text \<open>
  C1. Calling the constructor of \<open>Framebuffer\<close> fails with a TypeError for every
  combination of positional and keyword arguments and in every world, and the driver
  is not reached: its state and the record of calls into it are those of before.
\<close>

theorem Framebuffer_init_fails:
  "fst (Framebuffer_init self args kwargs w) = Inl TypeError
   \<and> calls (snd (Framebuffer_init self args kwargs w)) = calls w
   \<and> driver (snd (Framebuffer_init self args kwargs w)) = driver w"
  by (simp add: Framebuffer_init_def)

theorem Framebuffer_init_fails_witness:
  "fst (Framebuffer_init 12 [] [] example_world) = Inl TypeError
   \<and> fst (Framebuffer_init 12 [PInt 256, PInt 256] [(''samples'', PInt 4)] example_world) =
       Inl TypeError
   \<and> calls (snd (Framebuffer_init 12 [] [] example_world)) = []
   \<and> calls (snd (Framebuffer_init 12 [PInt 256, PInt 256] [(''samples'', PInt 4)]
                   example_world)) = []"
  using Framebuffer_init_fails [of 12 "[]" "[]" example_world]
    Framebuffer_init_fails [of 12 "[PInt 256, PInt 256]" "[(''samples'', PInt 4)]" example_world]
  by (simp add: example_world_def)

section \<open>The colour arguments of clear\<close>

lemma four_zeros:
  "[float_zero, float_zero, float_zero, float_zero] = replicate 4 float_zero"
  by (simp add: numeral_eq_Suc)

lemma starred_unpack:
  "i < 4 \<Longrightarrow>
   (xs @ [float_zero, float_zero, float_zero, float_zero]) ! i = first_four_padded xs ! i"
  unfolding four_zeros first_four_padded_def
  by (cases "i < length xs") (simp_all add: nth_append)

lemma length_first_four_padded: "length (first_four_padded xs) = 4"
  by (simp add: first_four_padded_def)

text \<open>
  C2, as the claim states it, fails. In the concrete world, \<open>clear(1.0, color=(0.0,
  0.0, 0.0, 0.0))\<close> gives red as \<open>1.0\<close> and as \<open>0.0\<close> at once; the call raises
  nothing, reaches the driver with the components of \<open>color\<close>, and returns \<open>None\<close>.
\<close>

theorem clear_conflict_counterexample:
  "fst (clear (spec_driver refuse) 10 float_one float_zero float_zero float_zero float_one PNone
          (PTuple [float_zero, float_zero, float_zero, float_zero]) example_world) = Inr PNone
   \<and> calls (snd (clear (spec_driver refuse) 10 float_one float_zero float_zero float_zero
          float_one PNone (PTuple [float_zero, float_zero, float_zero, float_zero])
          example_world)) =
       [(7, Clear float_zero float_zero float_zero float_zero float_one PNone)]"
  by (simp add: clear_def call_mglo_def spec_driver_def resolve_viewport_def example_world_def
        example_fb_def)

text \<open>
  C2, amended. \<open>clear\<close> does not compare the explicit channel values with \<open>color\<close>:
  when \<open>color\<close> is a sequence, the explicit values of red, green, blue and alpha are
  discarded, so the call is the same whatever they are, for every driver.
\<close>

theorem clear_color_replaces_channels:
  assumes "py_tuple color = Inr xs"
  shows "clear D self red green blue alpha depth vp color w =
         clear D self red' green' blue' alpha' depth vp color w"
proof -
  have "color \<noteq> PNone"
    using assms by (rule py_tuple_not_none)
  then show ?thesis
    by (simp add: clear_def)
qed

theorem clear_color_replaces_channels_witness:
  "py_tuple (PTuple [float_zero]) = Inr [float_zero]
   \<and> clear (spec_driver refuse) 10 float_one float_one float_one float_one float_one PNone
       (PTuple [float_zero]) example_world =
     clear (spec_driver refuse) 10 float_zero float_zero float_zero float_zero float_one PNone
       (PTuple [float_zero]) example_world"
  using clear_color_replaces_channels [of "PTuple [float_zero]" "[float_zero]"
      "spec_driver refuse" 10 float_one float_one float_one float_one float_one PNone
      example_world float_zero float_zero float_zero float_zero]
  by simp

text \<open>
  C4. For all values \<open>r\<close>, \<open>g\<close>, \<open>b\<close> (floats in particular), \<open>clear(color=(r, g, b))\<close>
  is the call \<open>clear(r, g, b, 0.0)\<close>: same result, same world, same call into the
  driver, for every driver. The arguments left out are the defaults of the
  signature, and the depth stays \<open>1.0\<close>.
\<close>

theorem clear_color_rgb:
  "clear D self float_zero float_zero float_zero float_zero float_one PNone (PTuple [r, g, b]) w =
   clear D self r g b float_zero float_one PNone PNone w"
  by (simp add: clear_def)

text \<open>
  C10. For every sequence given as \<open>color\<close>, with elements \<open>xs\<close>, the call is the one
  with the explicit channels \<open>first_four_padded xs\<close> and no \<open>color\<close>: components
  beyond the fourth are dropped without an error, the empty sequence gives four
  times \<open>0.0\<close>, and \<open>depth\<close> and \<open>viewport\<close> are the caller's on both sides.
\<close>

theorem clear_color_first_four_padded:
  assumes "py_tuple color = Inr xs"
  shows "clear D self red green blue alpha depth vp color w =
           clear D self (first_four_padded xs ! 0) (first_four_padded xs ! 1)
             (first_four_padded xs ! 2) (first_four_padded xs ! 3) depth vp PNone w
         \<and> length (first_four_padded xs) = 4
         \<and> first_four_padded xs = take 4 xs @ replicate (4 - length xs) float_zero
         \<and> first_four_padded [] = [float_zero, float_zero, float_zero, float_zero]"
proof -
  have "color \<noteq> PNone"
    using assms by (rule py_tuple_not_none)
  then have "clear D self red green blue alpha depth vp color w =
           clear D self (first_four_padded xs ! 0) (first_four_padded xs ! 1)
             (first_four_padded xs ! 2) (first_four_padded xs ! 3) depth vp PNone w"
    using assms by (simp add: clear_def starred_unpack)
  moreover have "first_four_padded [] = [float_zero, float_zero, float_zero, float_zero]"
    by (simp add: first_four_padded_def four_zeros)
  ultimately show ?thesis
    by (simp add: length_first_four_padded) (simp add: first_four_padded_def)
qed

theorem clear_color_first_four_padded_witness:
  "py_tuple (PList [PInt 1, PInt 2, PInt 3, PInt 4, PInt 5]) =
     Inr [PInt 1, PInt 2, PInt 3, PInt 4, PInt 5]
   \<and> first_four_padded [PInt 1, PInt 2, PInt 3, PInt 4, PInt 5] =
       [PInt 1, PInt 2, PInt 3, PInt 4]
   \<and> clear (spec_driver refuse) 10 float_one float_one float_one float_one float_one PNone
       (PList [PInt 1, PInt 2, PInt 3, PInt 4, PInt 5]) example_world =
     clear (spec_driver refuse) 10 (PInt 1) (PInt 2) (PInt 3) (PInt 4) float_one PNone PNone
       example_world"
  using clear_color_first_four_padded [of "PList [PInt 1, PInt 2, PInt 3, PInt 4, PInt 5]"
      "[PInt 1, PInt 2, PInt 3, PInt 4, PInt 5]" "spec_driver refuse" 10
      float_one float_one float_one float_one float_one PNone example_world]
  by (simp add: first_four_padded_def)

section \<open>The viewport of clear\<close>

lemma resolve_2_tuple:
  "resolve_viewport m (PTuple [w, h]) = resolve_viewport m (PTuple [PInt 0, PInt 0, w, h])"
  by (simp add: resolve_viewport_def split: option.splits)

lemma spec_driver_clear_2_tuple:
  "spec_driver other k (Clear r g b a dep (PTuple [w, h])) d =
   spec_driver other k (Clear r g b a dep (PTuple [PInt 0, PInt 0, w, h])) d"
  by (simp add: spec_driver_def resolve_2_tuple)

lemma call_mglo_clear_2_tuple:
  "observable (call_mglo (spec_driver other) self (Clear r g b a dep (PTuple [w, h])) W) =
   observable (call_mglo (spec_driver other) self
                 (Clear r g b a dep (PTuple [PInt 0, PInt 0, w, h])) W)"
  by (simp add: call_mglo_def observable_def spec_driver_clear_2_tuple
        split: option.splits prod.splits)

lemma observable_returns_none:
  "observable out1 = observable out2 \<Longrightarrow>
   observable (returns_none out1) = observable (returns_none out2)"
  by (cases out1; cases out2) (auto simp: observable_def returns_none_def split: sum.splits)

text \<open>
  C3. With the driver of the specification, \<open>clear(viewport=(w, h))\<close> and
  \<open>clear(viewport=(0, 0, w, h))\<close> have the same result and leave the same objects,
  the same rectangles and the same pixels, for all \<open>w\<close> and \<open>h\<close>, all other arguments
  and every world; and the rectangle cleared for a pair of integers is
  \<open>(0, 0, w, h)\<close>. The wrapper passes the tuple on as it is; the driver resolves it.
\<close>

theorem clear_viewport_2_tuple:
  "observable (clear (spec_driver other) self r g b a dep (PTuple [w, h]) color W) =
   observable (clear (spec_driver other) self r g b a dep
                 (PTuple [PInt 0, PInt 0, w, h]) color W)
   \<and> resolve_viewport m (PTuple [PInt x, PInt y]) = Some (0, 0, x, y)
   \<and> resolve_viewport m (PTuple [PInt 0, PInt 0, PInt x, PInt y]) = Some (0, 0, x, y)"
  by (auto simp: clear_def resolve_viewport_def
        intro!: observable_returns_none call_mglo_clear_2_tuple
        split: sum.splits prod.splits)

section \<open>The viewport and scissor properties\<close>

text \<open>
  C5. With the driver of the specification, for every sequence \<open>V\<close> of four integers
  (of any sign and size), the assignment \<open>viewport = V\<close> succeeds, forwards the tuple
  of the elements of \<open>V\<close> to the driver in one call, and the property then reads as
  that tuple.
\<close>

theorem viewport_set_get:
  assumes "mglo (framebuffers w self) = Some h"
    and "py_tuple V = Inr [PInt x, PInt y, PInt wd, PInt ht]"
  shows "fst (viewport_setter (spec_driver other) self V w) = Inr PNone
       \<and> calls (snd (viewport_setter (spec_driver other) self V w)) =
           calls w @ [(h, SetViewport (PTuple [PInt x, PInt y, PInt wd, PInt ht]))]
       \<and> fst (viewport (spec_driver other) self
                (snd (viewport_setter (spec_driver other) self V w))) =
           Inr (PTuple [PInt x, PInt y, PInt wd, PInt ht])"
  using assms
  by (simp add: viewport_setter_def viewport_def call_mglo_def spec_driver_def box_tuple_def)

theorem viewport_set_get_witness:
  "mglo (framebuffers example_world 10) = Some 7
   \<and> py_tuple (PList [PInt 1, PInt (- 2), PInt 30, PInt 40]) =
       Inr [PInt 1, PInt (- 2), PInt 30, PInt 40]
   \<and> fst (viewport (spec_driver refuse) 10 example_world) =
       Inr (PTuple [PInt 0, PInt 0, PInt 4, PInt 3])
   \<and> fst (viewport (spec_driver refuse) 10
        (snd (viewport_setter (spec_driver refuse) 10
                (PList [PInt 1, PInt (- 2), PInt 30, PInt 40]) example_world))) =
       Inr (PTuple [PInt 1, PInt (- 2), PInt 30, PInt 40])"
  using viewport_set_get [of example_world 10 7 "PList [PInt 1, PInt (- 2), PInt 30, PInt 40]"
      1 "- 2" 30 40 refuse]
  by (simp add: example_world_def example_fb_def example_mglo_def viewport_def call_mglo_def
        spec_driver_def box_tuple_def)

text \<open>
  C6. With the driver of the specification, on a framebuffer whose slot \<open>_size\<close> is
  the size of its native object (as the factory fills it), the assignment
  \<open>scissor = None\<close> succeeds, the property then reads \<open>(0, 0, width, height)\<close>, and
  the assignment is the same as the assignment of that box.
\<close>

theorem scissor_none_full_size:
  assumes "mglo (framebuffers w self) = Some h"
    and "slot_size (framebuffers w self) =
           (PInt (d_width (driver w h)), PInt (d_height (driver w h)))"
  shows "fst (scissor_setter (spec_driver other) self PNone w) = Inr PNone
       \<and> fst (scissor (spec_driver other) self
                (snd (scissor_setter (spec_driver other) self PNone w))) =
           Inr (PTuple [PInt 0, PInt 0, width self w, height self w])
       \<and> observable (scissor_setter (spec_driver other) self PNone w) =
           observable (scissor_setter (spec_driver other) self
                         (PTuple [PInt 0, PInt 0, width self w, height self w]) w)"
  using assms
  by (simp add: scissor_setter_def scissor_def call_mglo_def spec_driver_def box_tuple_def
        full_box_def width_def height_def observable_def)

theorem scissor_none_full_size_witness:
  "mglo (framebuffers example_world 10) = Some 7
   \<and> slot_size (framebuffers example_world 10) =
       (PInt (d_width (driver example_world 7)), PInt (d_height (driver example_world 7)))
   \<and> fst (scissor (spec_driver refuse) 10 example_world) =
       Inr (PTuple [PInt 1, PInt 1, PInt 2, PInt 2])
   \<and> fst (scissor (spec_driver refuse) 10
        (snd (scissor_setter (spec_driver refuse) 10 PNone example_world))) =
       Inr (PTuple [PInt 0, PInt 0, PInt 4, PInt 3])"
  using scissor_none_full_size [of example_world 10 7 refuse]
  by (simp add: example_world_def example_fb_def example_mglo_def width_def height_def
        scissor_def call_mglo_def spec_driver_def box_tuple_def)

text \<open>
  C7, as the claim states it, fails. A tuple of three elements assigned to
  \<open>viewport\<close> or to \<open>scissor\<close> is not refused by the wrapper: the call into the driver
  is made with the three elements, and the error is the driver's answer to it.
\<close>

theorem setter_wrong_length_counterexample:
  "fst (viewport_setter (spec_driver refuse) 10 (PTuple [PInt 1, PInt 2, PInt 3])
          example_world) = Inl (DriverError ''viewport'')
   \<and> calls (snd (viewport_setter (spec_driver refuse) 10 (PTuple [PInt 1, PInt 2, PInt 3])
          example_world)) = [(7, SetViewport (PTuple [PInt 1, PInt 2, PInt 3]))]
   \<and> fst (scissor_setter (spec_driver refuse) 10 (PTuple [PInt 1, PInt 2, PInt 3])
          example_world) = Inl (DriverError ''scissor'')
   \<and> calls (snd (scissor_setter (spec_driver refuse) 10 (PTuple [PInt 1, PInt 2, PInt 3])
          example_world)) = [(7, SetScissor (PTuple [PInt 1, PInt 2, PInt 3]))]"
  by (simp add: viewport_setter_def scissor_setter_def call_mglo_def spec_driver_def
        four_tuple_def example_world_def example_fb_def)

text \<open>
  C7, amended. The setters of \<open>viewport\<close> and \<open>scissor\<close> check no length: a sequence
  of any length is coerced to a tuple and forwarded in exactly one call into the
  driver, and the outcome is the driver's answer to that call (its error, or \<open>None\<close>),
  for every driver.
\<close>

theorem setter_forwards_any_length:
  assumes "mglo (framebuffers w self) = Some h" and "py_tuple v = Inr t"
  shows "calls (snd (viewport_setter D self v w)) = calls w @ [(h, SetViewport (PTuple t))]
       \<and> fst (viewport_setter D self v w) =
           (case fst (D h (SetViewport (PTuple t)) (driver w)) of
              Inl e \<Rightarrow> Inl e | Inr r \<Rightarrow> Inr PNone)
       \<and> calls (snd (scissor_setter D self v w)) = calls w @ [(h, SetScissor (PTuple t))]
       \<and> fst (scissor_setter D self v w) =
           (case fst (D h (SetScissor (PTuple t)) (driver w)) of
              Inl e \<Rightarrow> Inl e | Inr r \<Rightarrow> Inr PNone)"
proof -
  have "v \<noteq> PNone"
    using assms(2) by (rule py_tuple_not_none)
  then show ?thesis
    using assms
    by (simp add: viewport_setter_def scissor_setter_def calls_returns_none fst_returns_none
          call_mglo_some)
qed

theorem setter_forwards_any_length_witness:
  "mglo (framebuffers example_world 10) = Some 7
   \<and> py_tuple (PList [PInt 5]) = Inr [PInt 5]
   \<and> calls (snd (viewport_setter refuse 10 (PList [PInt 5]) example_world)) =
       [(7, SetViewport (PTuple [PInt 5]))]
   \<and> fst (viewport_setter refuse 10 (PList [PInt 5]) example_world) =
       Inl (DriverError ''unsupported'')
   \<and> calls (snd (scissor_setter accept 10 (PList [PInt 5]) example_world)) =
       [(7, SetScissor (PTuple [PInt 5]))]
   \<and> fst (scissor_setter accept 10 (PList [PInt 5]) example_world) = Inr PNone"
proof -
  have m: "mglo (framebuffers example_world 10) = Some 7"
    and c: "calls example_world = []"
    by (simp_all add: example_world_def example_fb_def)
  have t: "py_tuple (PList [PInt 5]) = Inr [PInt 5]"
    by simp
  have a: "fst (accept k q d) = Inr PNone" and r: "fst (refuse k q d) = Inl (DriverError ''unsupported'')"
    for k q d
    by (simp_all add: accept_def refuse_def)
  show ?thesis
    using setter_forwards_any_length [OF m t, of refuse]
      setter_forwards_any_length [OF m t, of accept]
    by (simp add: m c a r)
qed

section \<open>The active framebuffer\<close>

lemma use_returns:
  assumes "use D self w = (Inr v, w')"
  shows "\<exists>c. ctx (framebuffers w self) = Some c
           \<and> contexts w' = (contexts w)(c := (contexts w c)\<lparr>fbo := Some self\<rparr>)
           \<and> framebuffers w' = framebuffers w"
proof (cases "ctx (framebuffers w self)")
  case None
  then show ?thesis
    using assms by (simp add: use_def)
next
  case (Some c)
  let ?w1 = "w\<lparr>contexts := (contexts w)(c := (contexts w c)\<lparr>fbo := Some self\<rparr>)\<rparr>"
  have "snd (use D self w) = snd (call_mglo D self Use ?w1)"
    using Some by (simp add: use_def returns_none_snd)
  then have "w' = snd (call_mglo D self Use ?w1)"
    using assms by simp
  then show ?thesis
    using Some by (simp add: call_mglo_frame)
qed

lemma use_frame: "framebuffers (snd (use D self w)) = framebuffers w"
  by (simp add: use_def returns_none_snd call_mglo_frame split: option.splits)

lemma fst_use:
  assumes "ctx (framebuffers w self) = Some c" and "mglo (framebuffers w self) = Some h"
  shows "fst (use D self w) =
           (case fst (D h Use (driver w)) of Inl e \<Rightarrow> Inl e | Inr v \<Rightarrow> Inr PNone)"
  using assms by (simp add: use_def fst_returns_none call_mglo_some)

text \<open>
  C8. When \<open>use()\<close> returns on a framebuffer \<open>f1\<close> of the context \<open>c\<close>, the attribute
  \<open>fbo\<close> of \<open>c\<close> is \<open>f1\<close>, and nothing else of any context has changed; when \<open>use()\<close>
  then returns on \<open>f2\<close> of the same context, \<open>fbo\<close> is \<open>f2\<close>: the attribute holds one
  framebuffer, the receiver of the last call. This holds for every driver.
\<close>

theorem use_makes_active:
  assumes "use D f1 w = (Inr v1, w1)" and "use D f2 w1 = (Inr v2, w2)"
    and "ctx (framebuffers w f1) = Some c" and "ctx (framebuffers w f2) = Some c"
  shows "fbo (contexts w1 c) = Some f1
       \<and> fbo (contexts w2 c) = Some f2
       \<and> contexts w1 = (contexts w)(c := (contexts w c)\<lparr>fbo := Some f1\<rparr>)
       \<and> contexts w2 = (contexts w1)(c := (contexts w1 c)\<lparr>fbo := Some f2\<rparr>)"
  using use_returns [OF assms(1)] use_returns [OF assms(2)] assms(3,4) by auto

theorem use_makes_active_witness:
  "use accept 10 example_world = (Inr PNone, snd (use accept 10 example_world))
   \<and> use accept 11 (snd (use accept 10 example_world)) =
       (Inr PNone, snd (use accept 11 (snd (use accept 10 example_world))))
   \<and> ctx (framebuffers example_world 10) = Some 1
   \<and> ctx (framebuffers example_world 11) = Some 1
   \<and> fbo (contexts example_world 1) = None
   \<and> fbo (contexts (snd (use accept 10 example_world)) 1) = Some 10
   \<and> fbo (contexts (snd (use accept 11 (snd (use accept 10 example_world)))) 1) = Some 11"
proof -
  let ?w1 = "snd (use accept 10 example_world)"
  have c1: "ctx (framebuffers example_world 10) = Some 1"
    and c2: "ctx (framebuffers example_world 11) = Some 1"
    and m1: "mglo (framebuffers example_world 10) = Some 7"
    and m2: "mglo (framebuffers example_world 11) = Some 8"
    and c0: "fbo (contexts example_world 1) = None"
    by (simp_all add: example_world_def example_fb_def)
  have a: "fst (accept k Use d) = Inr PNone" for k d
    by (simp add: accept_def)
  have "fst (use accept 10 example_world) = Inr PNone"
    using fst_use [OF c1 m1, of accept] by (simp add: a)
  then have u1: "use accept 10 example_world = (Inr PNone, ?w1)"
    by (simp add: prod_eq_iff)
  have "fst (use accept 11 ?w1) = Inr PNone"
    using fst_use [of ?w1 11 1 8 accept] c2 m2 by (simp add: a use_frame)
  then have u2: "use accept 11 ?w1 = (Inr PNone, snd (use accept 11 ?w1))"
    by (simp add: prod_eq_iff)
  have r1: "fbo (contexts ?w1 1) = Some 10"
    and r2: "fbo (contexts (snd (use accept 11 ?w1)) 1) = Some 11"
    using use_makes_active [OF u1 u2 c1 c2] by simp_all
  show ?thesis
    by (intro conjI u1 u2 c1 c2 c0 r1 r2)
qed

section \<open>The fields fixed at creation\<close>

lemma clear_frame: "framebuffers (snd (clear D self r g b a dep vp col w)) = framebuffers w"
  by (simp add: clear_def returns_none_snd call_mglo_frame split: sum.splits prod.splits)

lemma run_op_frame: "framebuffers (snd (run_op D self op w)) = framebuffers w"
  by (cases op)
     (simp_all add: viewport_def viewport_setter_def scissor_def scissor_setter_def
        color_mask_def color_mask_setter_def depth_mask_def depth_mask_setter_def bits_def
        clear_frame use_frame read_def read_into_def release_def returns_none_snd
        call_mglo_frame split: sum.splits)

lemma run_ops_frame: "framebuffers (run_ops D ops w) = framebuffers w"
  by (induction ops arbitrary: w) (auto simp: run_op_frame)

text \<open>
  C9. After any sequence of public operations on any receivers, with any arguments
  and any driver, the size, the width, the height, the samples, the handle \<open>glo\<close>
  and the attachments of every framebuffer are those of before.
\<close>

theorem creation_fields_fixed:
  "size_fb f (run_ops D ops w) = size_fb f w
   \<and> width f (run_ops D ops w) = width f w
   \<and> height f (run_ops D ops w) = height f w
   \<and> samples f (run_ops D ops w) = samples f w
   \<and> glo f (run_ops D ops w) = glo f w
   \<and> color_attachments f (run_ops D ops w) = color_attachments f w
   \<and> depth_attachment f (run_ops D ops w) = depth_attachment f w"
  by (simp add: size_fb_def width_def height_def samples_def glo_def color_attachments_def
        depth_attachment_def run_ops_frame)

end
